theory Spec2Isabelle
  imports Main "HOL-Library.Word"
begin

section \<open>SNMP models: object identifiers and values (datadog\_checks/snmp/models.py)\<close>

text \<open>
  The module wraps objects of the PySNMP and pyasn1 libraries. Such an object is
  modelled by what the module observes of it: the name of its class, the names of
  its superclasses, its ASN.1 tag set and constraints, and the results of the
  conversions the module calls on it. Exceptions are values of \<open>error\<close>; a method
  that can raise returns \<open>error + 'a\<close> with \<open>Inl\<close> for the exception.
\<close>

subsection \<open>Exceptions\<close>

datatype error =
    CouldNotDecodeOID
  | NotImplementedError
  | ValueError
  | AttributeError
  | TypeError
  | SmiError
  | PyAsn1Error

subsection \<open>Library objects\<close>

text \<open>A Python float is a 64-bit IEEE double; only its bit pattern is kept.\<close>

datatype pyfloat = Float64 "64 word"

type_synonym byte = "8 word"

text \<open>An ASN.1 tag: class, format and number.\<close>

type_synonym tag = "nat \<times> nat \<times> nat"

datatype constraint =
    ValueRangeConstraint int int
  | ValueSizeConstraint nat nat
  | SingleValueConstraint "byte list"

text \<open>
  A pyasn1 value (\<open>Asn1Type\<close>). \<open>class_name\<close> is \<open>v.__class__.__name__\<close>,
  \<open>superclasses\<close> the names of the other classes of its method resolution order,
  \<open>int_value\<close>, \<open>float_value\<close> and \<open>bytes_value\<close> what \<open>int(v)\<close>, \<open>float(v)\<close> and
  \<open>bytes(v)\<close> give, \<open>prettyPrint\<close> its rendering, and \<open>as_sequence\<close> its
  components when it is an object identifier.
\<close>

record asn1 =
  class_name :: string
  superclasses :: "string list"
  tagSet :: "tag list"
  subtypeSpec :: "constraint list"
  int_value :: "error + int"
  float_value :: "error + pyfloat"
  bytes_value :: "error + byte list"
  prettyPrint :: string
  as_sequence :: "int list option"

definition asn1_isinstance :: "asn1 \<Rightarrow> string \<Rightarrow> bool" where
  "asn1_isinstance v c = (class_name v = c \<or> c \<in> set (superclasses v))"

text \<open>pyasn1's \<open>isSameTypeWith\<close>: the tag sets and the constraints agree.\<close>

definition isSameTypeWith :: "asn1 \<Rightarrow> asn1 \<Rightarrow> bool" where
  "isSameTypeWith self other = (tagSet self = tagSet other \<and> subtypeSpec self = subtypeSpec other)"

text \<open>
  An index of a resolved MIB symbol, observed through \<open>str(index)\<close>.
\<close>

datatype mib_index = MibIndex (index_str: string)

text \<open>
  PySNMP's \<open>ObjectIdentity\<close>: the arguments it was built from, and the result of
  its resolution against the MIBs once that has happened (the object identifier,
  the module, the symbol and the indexes).
\<close>

datatype identity_args =
    OidArgs "int list"
  | SymbolArgs string string "int list"

datatype object_identity =
  ObjectIdentity (identity_args: identity_args)
                 (resolution: "(int list \<times> string \<times> string \<times> mib_index list) option")

definition getMibSymbol :: "object_identity \<Rightarrow> error + (string \<times> string \<times> mib_index list)" where
  "getMibSymbol i =
     (case resolution i of
        None \<Rightarrow> Inl SmiError
      | Some (oid, modName, symName, indices) \<Rightarrow> Inr (modName, symName, indices))"

text \<open>PySNMP's \<open>ObjectType\<close>, built around an \<open>ObjectIdentity\<close>.\<close>

datatype object_type = ObjectType (identity: object_identity)

text \<open>
  What \<open>OID.__init__\<close> accepts:
  \<open>Union[Sequence[int], str, ObjectName, ObjectIdentity, ObjectType]\<close>. The five
  classes are disjoint: no pyasn1 value is an \<open>ObjectIdentity\<close> or an \<open>ObjectType\<close>.
\<close>

datatype pyobj =
    PySeq "int list"
  | PyStr string
  | PyAsn1 asn1
  | PyObjectIdentity object_identity
  | PyObjectType object_type

subsection \<open>The supported SNMP value classes\<close>

definition SNMP_COUNTER_CLASSES :: "string set" where
  "SNMP_COUNTER_CLASSES = {''Counter32'', ''Counter64'', ''ZeroBasedCounter64''}"

definition SNMP_GAUGE_CLASSES :: "string set" where
  "SNMP_GAUGE_CLASSES =
     {''Gauge32'', ''Integer'', ''Integer32'', ''Unsigned32'', ''CounterBasedGauge64''}"

subsection \<open>Decimal numerals\<close>

text \<open>Python's \<open>str\<close> on an integer, and the reading of a string of decimal digits.\<close>

definition digit_char :: "nat \<Rightarrow> char" where
  "digit_char d = ''0123456789'' ! d"

definition is_digit :: "char \<Rightarrow> bool" where
  "is_digit c = (c \<in> set ''0123456789'')"

definition digit_val :: "char \<Rightarrow> nat" where
  "digit_val c = of_char c - 48"

fun str_nat :: "nat \<Rightarrow> string" where
  "str_nat n =
     (if n < 10 then [digit_char n] else str_nat (n div 10) @ [digit_char (n mod 10)])"

declare str_nat.simps [simp del]

definition str_int :: "int \<Rightarrow> string" where
  "str_int i = (if i < 0 then CHR ''-'' # str_nat (nat (- i)) else str_nat (nat i))"

definition parse_digits :: "string \<Rightarrow> nat" where
  "parse_digits s = foldl (\<lambda>acc c. 10 * acc + digit_val c) 0 s"

text \<open>\<open>s.split(sep)\<close> and \<open>sep.join(xs)\<close> for a separator of one character.\<close>

fun split_on :: "char \<Rightarrow> string \<Rightarrow> string list" where
  "split_on sep [] = [[]]"
| "split_on sep (c # cs) =
     (if c = sep then [] # split_on sep cs
      else (case split_on sep cs of
              [] \<Rightarrow> [[c]]
            | t # ts \<Rightarrow> (c # t) # ts))"

fun join :: "char \<Rightarrow> string list \<Rightarrow> string" where
  "join sep [] = []"
| "join sep [t] = t"
| "join sep (t # ts) = t @ sep # join sep ts"

subsection \<open>The helpers of utils.py\<close>

text \<open>
  models.py imports \<open>parse_as_oid_tuple\<close> and \<open>format_as_oid_string\<close> from
  utils.py, which is not among the sources; both are modelled from the spec. The
  spec on parsing: it parses the raw representation into a canonical numeric
  tuple, and fails with the malformed-identifier error (\<open>CouldNotDecodeOID\<close>) when
  the raw representation cannot be interpreted as a dotted numeric path, as a
  numeric sequence, or resolved via the symbolic-identity handle (for example
  when it is empty, has a non-numeric token or a negative component); a valid
  numeric sequence resolves to itself. A typed-object handle wraps a symbolic
  identity and is resolved through it; a pyasn1 object identifier is a numeric
  sequence.
\<close>

text \<open>
  Modelled from the spec: the numeric-sequence case of \<open>parse_as_oid_tuple\<close>. An
  empty sequence and a negative component are malformed; a valid sequence resolves
  to itself.
\<close>

definition parse_sequence :: "int list \<Rightarrow> error + int list" where
  "parse_sequence xs =
     (if xs \<noteq> [] \<and> list_all (\<lambda>x. 0 \<le> x) xs then Inr xs else Inl CouldNotDecodeOID)"

text \<open>
  Modelled from the spec: the dotted-string case of \<open>parse_as_oid_tuple\<close>. The
  tokens between the dots are read as decimal numerals; an empty token (so also the
  empty string) and a token with a character that is no digit (so also a sign) are
  malformed.
\<close>

definition numeric_token :: "string \<Rightarrow> bool" where
  "numeric_token t = (t \<noteq> [] \<and> list_all is_digit t)"

definition parse_dotted :: "string \<Rightarrow> error + int list" where
  "parse_dotted s =
     (let tokens = split_on CHR ''.'' s in
      if list_all numeric_token tokens
      then Inr (map (\<lambda>t. int (parse_digits t)) tokens)
      else Inl CouldNotDecodeOID)"

text \<open>
  Modelled from the spec: the symbolic-identity case of \<open>parse_as_oid_tuple\<close>. The
  handle is resolved through the object identifier it holds once it is resolved; a
  handle that is not resolved yet cannot be interpreted.
\<close>

definition parse_identity :: "object_identity \<Rightarrow> error + int list" where
  "parse_identity i =
     (case resolution i of
        None \<Rightarrow> Inl CouldNotDecodeOID
      | Some (oid, modName, symName, indices) \<Rightarrow> parse_sequence oid)"

text \<open>
  Modelled from the spec: \<open>parse_as_oid_tuple\<close> of utils.py, by the kind of the raw
  representation.
\<close>

fun parse_as_oid_tuple :: "pyobj \<Rightarrow> error + int list" where
  "parse_as_oid_tuple (PySeq xs) = parse_sequence xs"
| "parse_as_oid_tuple (PyStr s) = parse_dotted s"
| "parse_as_oid_tuple (PyAsn1 v) =
     (case as_sequence v of None \<Rightarrow> Inl CouldNotDecodeOID | Some xs \<Rightarrow> parse_sequence xs)"
| "parse_as_oid_tuple (PyObjectIdentity i) = parse_identity i"
| "parse_as_oid_tuple (PyObjectType t) = parse_identity (identity t)"

text \<open>
  Modelled from the spec: \<open>format_as_oid_string\<close> of utils.py, which is not among
  the sources. The spec: the canonical dotted-decimal string, each component
  formatted and the components joined by a dot.
\<close>

definition format_as_oid_string :: "int list \<Rightarrow> string" where
  "format_as_oid_string ps = join CHR ''.'' (map str_int ps)"

subsection \<open>class OID\<close>

text \<open>
  An \<open>OID\<close> object has the attribute \<open>raw\<close> and, once \<open>_initialize\<close> has succeeded,
  the attribute \<open>_parts\<close> (here \<open>parts\<close>, absent as \<open>None\<close>). Methods take the object
  and return it updated. The calls of \<open>parse_as_oid_tuple\<close> are recorded in a log of
  its arguments, so that a method that parses can be told from one that does not.
\<close>

record oid =
  raw :: pyobj
  parts :: "int list option"

type_synonym parse_log = "pyobj list"

definition OID_init :: "pyobj \<Rightarrow> oid" where
  "OID_init v = \<lparr>raw = v, parts = None\<rparr>"

definition initialize :: "oid \<Rightarrow> parse_log \<Rightarrow> (error + unit) \<times> oid \<times> parse_log" where
  "initialize self log =
     (case parse_as_oid_tuple (raw self) of
        Inl e \<Rightarrow> (Inl e, self, log @ [raw self])
      | Inr ps \<Rightarrow> (Inr (), self\<lparr>parts := Some ps\<rparr>, log @ [raw self]))"

definition get_mib_symbol :: "oid \<Rightarrow> error + (string \<times> string list)" where
  "get_mib_symbol self =
     (case raw self of
        PyObjectIdentity i \<Rightarrow>
          (case getMibSymbol i of
             Inl e \<Rightarrow> Inl e
           | Inr (m, metric, indexes) \<Rightarrow> Inr (metric, map index_str indexes))
      | _ \<Rightarrow> Inl NotImplementedError)"

definition resolve_as_tuple :: "oid \<Rightarrow> parse_log \<Rightarrow> (error + int list) \<times> oid \<times> parse_log" where
  "resolve_as_tuple self log =
     (case initialize self log of
        (Inl e, self', log') \<Rightarrow> (Inl e, self', log')
      | (Inr u, self', log') \<Rightarrow>
          (case parts self' of
             None \<Rightarrow> (Inl AttributeError, self', log')
           | Some ps \<Rightarrow> (Inr ps, self', log')))"

definition maybe_resolve_as_object_type ::
  "oid \<Rightarrow> parse_log \<Rightarrow> (error + object_type) \<times> oid \<times> parse_log" where
  "maybe_resolve_as_object_type self log =
     (case raw self of
        PyObjectType t \<Rightarrow> (Inr t, self, log)
      | PyObjectIdentity i \<Rightarrow> (Inr (ObjectType i), self, log)
      | _ \<Rightarrow>
          (case resolve_as_tuple self log of
             (Inl e, self', log') \<Rightarrow> (Inl e, self', log')
           | (Inr ps, self', log') \<Rightarrow>
               (Inr (ObjectType (ObjectIdentity (OidArgs ps) None)), self', log')))"

text \<open>The argument of \<open>__eq__\<close> is any object: an \<open>OID\<close> or something else.\<close>

datatype any = AnOID oid | NotAnOID

definition OID_eq :: "oid \<Rightarrow> any \<Rightarrow> parse_log \<Rightarrow> (error + bool) \<times> oid \<times> any \<times> parse_log" where
  "OID_eq self other log =
     (case other of
        NotAnOID \<Rightarrow> (Inr False, self, other, log)
      | AnOID that \<Rightarrow>
          (case resolve_as_tuple self log of
             (Inl e, self', log') \<Rightarrow> (Inl e, self', other, log')
           | (Inr a, self', log') \<Rightarrow>
               (case resolve_as_tuple that log' of
                  (Inl e, that', log'') \<Rightarrow> (Inl e, self', AnOID that', log'')
                | (Inr b, that', log'') \<Rightarrow> (Inr (a = b), self', AnOID that', log''))))"

definition OID_str :: "oid \<Rightarrow> parse_log \<Rightarrow> (error + string) \<times> oid \<times> parse_log" where
  "OID_str self log =
     (case resolve_as_tuple self log of
        (Inl e, self', log') \<Rightarrow> (Inl e, self', log')
      | (Inr ps, self', log') \<Rightarrow> (Inr (format_as_oid_string ps), self', log'))"

subsection \<open>class Value\<close>

text \<open>
  \<open>Value.__init__\<close> takes a pyasn1 value or an \<open>ObjectIdentity\<close>; the attribute
  \<open>_value\<close> (here \<open>inner\<close>) holds an \<open>OID\<close> or the pyasn1 value itself.
\<close>

datatype value_arg = Asn1Arg asn1 | IdentityArg object_identity

datatype payload = Wrapped oid | Plain asn1

record snmp_value =
  inner :: payload

fun Value_init :: "value_arg \<Rightarrow> snmp_value" where
  "Value_init (Asn1Arg v) =
     (if asn1_isinstance v ''ObjectIdentifier''
      then \<lparr>inner = Wrapped (OID_init (PyAsn1 v))\<rparr>
      else \<lparr>inner = Plain v\<rparr>)"
| "Value_init (IdentityArg i) = \<lparr>inner = Wrapped (OID_init (PyObjectIdentity i))\<rparr>"

text \<open>\<open>self._value.__class__.__name__\<close>\<close>

fun payload_class_name :: "payload \<Rightarrow> string" where
  "payload_class_name (Wrapped x) = ''OID''"
| "payload_class_name (Plain v) = class_name v"

definition is_counter :: "snmp_value \<Rightarrow> bool" where
  "is_counter self = (payload_class_name (inner self) \<in> SNMP_COUNTER_CLASSES)"

definition is_gauge :: "snmp_value \<Rightarrow> bool" where
  "is_gauge self = (payload_class_name (inner self) \<in> SNMP_GAUGE_CLASSES)"

definition is_opaque :: "snmp_value \<Rightarrow> bool" where
  "is_opaque self = (payload_class_name (inner self) = ''Opaque'')"

definition Value_int :: "snmp_value \<Rightarrow> error + int" where
  "Value_int self =
     (case inner self of
        Wrapped x \<Rightarrow> Inl ValueError
      | Plain v \<Rightarrow> int_value v)"

text \<open>\<open>pyasn1_decode\<close> is pyasn1's BER decoder, a parameter of the model.\<close>

type_synonym decoder = "byte list \<Rightarrow> error + (asn1 \<times> byte list)"

definition Value_float :: "decoder \<Rightarrow> snmp_value \<Rightarrow> error + pyfloat" where
  "Value_float pyasn1_decode self =
     (case inner self of
        Wrapped x \<Rightarrow> Inl ValueError
      | Plain v \<Rightarrow>
          if is_opaque self
          then (case bytes_value v of
                  Inl e \<Rightarrow> Inl e
                | Inr bs \<Rightarrow>
                    (case pyasn1_decode bs of
                       Inl e \<Rightarrow> Inl e
                     | Inr (decoded, rest) \<Rightarrow> float_value decoded))
          else float_value v)"

text \<open>
  Modelled from the spec: the constants \<open>noSuchInstance\<close>, \<open>noSuchObject\<close> and
  \<open>endOfMibView\<close> that models.py imports from pysnmp\_types.py, which is not among
  the sources. The spec: three sentinel types of the protocol. They are PySNMP's
  null values under the context tags 1, 0 and 2; \<open>sentinel\<close> builds such a value
  from its class name, its tag number and its rendering.
\<close>

definition sentinel :: "string \<Rightarrow> nat \<Rightarrow> string \<Rightarrow> asn1" where
  "sentinel name n text =
     \<lparr>class_name = name, superclasses = [''Null'', ''OctetString'', ''object''],
      tagSet = [(128, 0, n)], subtypeSpec = [SingleValueConstraint []],
      int_value = Inl PyAsn1Error, float_value = Inl TypeError,
      bytes_value = Inr [], prettyPrint = text, as_sequence = None\<rparr>"

definition noSuchObject :: asn1 where
  "noSuchObject = sentinel ''NoSuchObject'' 0 ''No Such Object currently exists at this OID''"

definition noSuchInstance :: asn1 where
  "noSuchInstance =
     sentinel ''NoSuchInstance'' 1 ''No Such Instance currently exists at this OID''"

definition endOfMibView :: asn1 where
  "endOfMibView = sentinel ''EndOfMibView'' 2 ''No more variables left in this MIB View''"

definition Value_bool :: "snmp_value \<Rightarrow> bool" where
  "Value_bool self =
     (case inner self of
        Wrapped x \<Rightarrow> True
      | Plain v \<Rightarrow>
          if isSameTypeWith noSuchInstance v then False
          else if isSameTypeWith noSuchObject v then False
          else True)"

definition Value_str :: "snmp_value \<Rightarrow> parse_log \<Rightarrow> (error + string) \<times> snmp_value \<times> parse_log" where
  "Value_str self log =
     (case inner self of
        Wrapped x \<Rightarrow>
          (case OID_str x log of
             (r, x', log') \<Rightarrow> (r, self\<lparr>inner := Wrapped x'\<rparr>, log'))
      | Plain v \<Rightarrow>
          (Inr (if isSameTypeWith noSuchInstance v then ''NoSuchInstance''
                else if isSameTypeWith noSuchObject v then ''NoSuchObject''
                else if isSameTypeWith endOfMibView v then ''EndOfMibView''
                else prettyPrint v),
           self, log))"

subsection \<open>Canonical dotted strings\<close>

text \<open>
  A token is canonical when it is a decimal numeral without a superfluous leading
  zero; a dotted string is canonical when each of its tokens is.
\<close>

definition canonical_token :: "string \<Rightarrow> bool" where
  "canonical_token t =
     (case t of
        [] \<Rightarrow> False
      | c # cs \<Rightarrow> list_all is_digit t \<and> (cs = [] \<or> c \<noteq> CHR ''0''))"

definition canonical_dotted :: "string \<Rightarrow> bool" where
  "canonical_dotted d = list_all canonical_token (split_on CHR ''.'' d)"

subsection \<open>Example objects\<close>

text \<open>
  Library objects as a poll returns them, used to instantiate the theorems below
  (their superclass lists are abridged): a
  \<open>CounterBasedGauge64\<close> (a subclass of \<open>Counter64\<close> in the library), a \<open>Gauge32\<close>,
  an \<open>ObjectName\<close>, an \<open>Opaque\<close> holding the BER encoding of the float 42.0 with the
  value a decoder returns for it, and a resolved and an unresolved \<open>ObjectIdentity\<close>.
\<close>

definition counter64_based_gauge :: asn1 where
  "counter64_based_gauge =
     \<lparr>class_name = ''CounterBasedGauge64'',
      superclasses = [''Counter64'', ''Integer'', ''object''],
      tagSet = [(64, 0, 6)], subtypeSpec = [ValueRangeConstraint 0 18446744073709551615],
      int_value = Inr 42, float_value = Inr (Float64 0x4045000000000000),
      bytes_value = Inl TypeError, prettyPrint = ''42'', as_sequence = None\<rparr>"

definition gauge32_value :: asn1 where
  "gauge32_value =
     \<lparr>class_name = ''Gauge32'',
      superclasses = [''Unsigned32'', ''Integer32'', ''Integer'', ''object''],
      tagSet = [(64, 0, 2)], subtypeSpec = [ValueRangeConstraint 0 4294967295],
      int_value = Inr 7, float_value = Inr (Float64 0x401C000000000000),
      bytes_value = Inl TypeError, prettyPrint = ''7'', as_sequence = None\<rparr>"

definition object_name_value :: asn1 where
  "object_name_value =
     \<lparr>class_name = ''ObjectName'', superclasses = [''ObjectIdentifier'', ''object''],
      tagSet = [(0, 0, 6)], subtypeSpec = [],
      int_value = Inl TypeError, float_value = Inl TypeError,
      bytes_value = Inl TypeError, prettyPrint = ''1.3.6.1.4.1.9'',
      as_sequence = Some [1, 3, 6, 1, 4, 1, 9]\<rparr>"

definition float_value_42 :: asn1 where
  "float_value_42 =
     \<lparr>class_name = ''Real'', superclasses = [''object''],
      tagSet = [(0, 0, 9)], subtypeSpec = [],
      int_value = Inr 42, float_value = Inr (Float64 0x4045000000000000),
      bytes_value = Inl TypeError, prettyPrint = ''42.0'', as_sequence = None\<rparr>"

definition opaque_value :: asn1 where
  "opaque_value =
     \<lparr>class_name = ''Opaque'', superclasses = [''OctetString'', ''object''],
      tagSet = [(64, 0, 4)], subtypeSpec = [],
      int_value = Inl ValueError, float_value = Inl ValueError,
      bytes_value = Inr [0x9F, 0x78, 0x04, 0x42, 0x28, 0x00, 0x00],
      prettyPrint = ''0x9f780442280000'', as_sequence = None\<rparr>"

definition example_decode :: decoder where
  "example_decode bs =
     (if bs = [0x9F, 0x78, 0x04, 0x42, 0x28, 0x00, 0x00] then Inr (float_value_42, [])
      else Inl PyAsn1Error)"

definition resolved_identity :: object_identity where
  "resolved_identity =
     ObjectIdentity (SymbolArgs ''SNMPv2-MIB'' ''sysObjectID'' [0])
       (Some ([1, 3, 6, 1, 2, 1, 1, 2, 0], ''SNMPv2-MIB'', ''sysObjectID'', [MibIndex ''0'']))"

definition unresolved_identity :: object_identity where
  "unresolved_identity = ObjectIdentity (SymbolArgs ''SNMPv2-MIB'' ''sysObjectID'' [0]) None"

section \<open>Properties\<close>

subsection \<open>Resolution of an OID\<close>

lemma resolve_as_tuple_parse:
  "resolve_as_tuple self log =
     (case parse_as_oid_tuple (raw self) of
        Inl e \<Rightarrow> (Inl e, self, log @ [raw self])
      | Inr ps \<Rightarrow> (Inr ps, self\<lparr>parts := Some ps\<rparr>, log @ [raw self]))"
  by (simp add: resolve_as_tuple_def initialize_def split: sum.splits)

lemma resolve_result: "fst (resolve_as_tuple self log) = parse_as_oid_tuple (raw self)"
  by (simp add: resolve_as_tuple_parse split: sum.splits)

lemma parse_example_str: "parse_dotted ''1.3.6.1'' = Inr [1, 3, 6, 1]"
  by (simp add: parse_dotted_def numeric_token_def is_digit_def parse_digits_def digit_val_def)

lemma parse_example_seq: "parse_sequence [1, 3, 6, 1] = Inr [1, 3, 6, 1]"
  by (simp add: parse_sequence_def)

subsection \<open>Decimal numerals, split and join\<close>

lemma digit_val_char: "d < 10 \<Longrightarrow> digit_val (digit_char d) = d"
proof -
  assume "d < 10"
  then have "d \<in> {0, 1, 2, 3, 4, 5, 6, 7, 8, 9}" by auto
  then show ?thesis by (auto simp add: digit_val_def digit_char_def)
qed

lemma digit_char_val: "is_digit c \<Longrightarrow> digit_char (digit_val c) = c \<and> digit_val c < 10"
  by (auto simp add: digit_val_def is_digit_def digit_char_def)

lemma digit_val_zero: "is_digit c \<Longrightarrow> digit_val c = 0 \<Longrightarrow> c = CHR ''0''"
  by (auto simp add: digit_val_def is_digit_def)

lemma parse_digits_snoc: "parse_digits (s @ [c]) = 10 * parse_digits s + digit_val c"
  by (simp add: parse_digits_def)

lemma str_nat_digit: "d < 10 \<Longrightarrow> str_nat d = [digit_char d]"
  by (simp add: str_nat.simps)

lemma str_nat_step: "d < 10 \<Longrightarrow> 0 < m \<Longrightarrow> str_nat (10 * m + d) = str_nat m @ [digit_char d]"
  by (subst str_nat.simps) simp

text \<open>
  Reading a numeral that does not start with a zero and writing the number again
  gives the numeral back. The induction is on the numeral from its last digit.
\<close>

lemma str_nat_parse_digits:
  "s \<noteq> [] \<Longrightarrow> list_all is_digit s \<Longrightarrow> hd s \<noteq> CHR ''0'' \<Longrightarrow>
   str_nat (parse_digits s) = s \<and> 0 < parse_digits s"
proof (induction s rule: rev_induct)
  case Nil
  then show ?case by simp
next
  case (snoc c s)
  from snoc.prems have c: "is_digit c" by simp
  show ?case
  proof (cases "s = []")
    case True
    with snoc.prems have "c \<noteq> CHR ''0''" by simp
    with c have "0 < digit_val c" using digit_val_zero by fastforce
    with c True show ?thesis
      by (simp add: parse_digits_def str_nat_digit digit_char_val)
  next
    case False
    with snoc.prems have "list_all is_digit s" "hd s \<noteq> CHR ''0''" by simp_all
    with False snoc.IH have ih: "str_nat (parse_digits s) = s" "0 < parse_digits s" by simp_all
    with c show ?thesis
      by (simp add: parse_digits_snoc str_nat_step digit_char_val)
  qed
qed

lemma canonical_token_roundtrip:
  assumes "canonical_token t"
  shows "str_int (int (parse_digits t)) = t"
proof (cases t)
  case Nil
  with assms show ?thesis by (simp add: canonical_token_def)
next
  case (Cons c cs)
  with assms have d: "list_all is_digit t" and z: "cs = [] \<or> c \<noteq> CHR ''0''"
    by (simp_all add: canonical_token_def)
  have "str_nat (parse_digits t) = t"
  proof (cases "c = CHR ''0''")
    case True
    with z Cons have "t = ''0''" by simp
    then show ?thesis by (simp add: parse_digits_def digit_val_def str_nat.simps digit_char_def)
  next
    case False
    with Cons d show ?thesis using str_nat_parse_digits [of t] by simp
  qed
  then show ?thesis by (simp add: str_int_def)
qed

lemma canonical_token_numeric: "canonical_token t \<Longrightarrow> numeric_token t"
  by (cases t) (simp_all add: canonical_token_def numeric_token_def)

lemma split_on_not_Nil: "split_on sep s \<noteq> []"
  by (induction s) (auto split: list.splits)

lemma join_Cons: "join sep (t # ts) = (if ts = [] then t else t @ sep # join sep ts)"
  by (cases ts) simp_all

lemma join_split_on: "join sep (split_on sep s) = s"
proof (induction s)
  case Nil
  then show ?case by simp
next
  case (Cons c cs)
  then show ?case
    using split_on_not_Nil [of sep cs]
    by (cases "split_on sep cs") (auto simp add: join_Cons)
qed

lemma format_parse_canonical:
  assumes "canonical_dotted d"
  shows "parse_dotted d = Inr (map (\<lambda>t. int (parse_digits t)) (split_on CHR ''.'' d))"
    and "format_as_oid_string (map (\<lambda>t. int (parse_digits t)) (split_on CHR ''.'' d)) = d"
proof -
  from assms have c: "\<forall>t \<in> set (split_on CHR ''.'' d). canonical_token t"
    by (simp add: canonical_dotted_def list_all_iff)
  then have "list_all numeric_token (split_on CHR ''.'' d)"
    by (simp add: list_all_iff canonical_token_numeric)
  then show "parse_dotted d = Inr (map (\<lambda>t. int (parse_digits t)) (split_on CHR ''.'' d))"
    by (simp add: parse_dotted_def)
  from c have "map (\<lambda>t. str_int (int (parse_digits t))) (split_on CHR ''.'' d) = split_on CHR ''.'' d"
    by (simp add: map_idI canonical_token_roundtrip)
  then show "format_as_oid_string (map (\<lambda>t. int (parse_digits t)) (split_on CHR ''.'' d)) = d"
    by (simp add: format_as_oid_string_def comp_def join_split_on)
qed

subsection \<open>The sentinel types\<close>

lemma same_type_tagSet: "isSameTypeWith s a \<Longrightarrow> tagSet a = tagSet s"
  by (simp add: isSameTypeWith_def)

lemma sentinel_tagSets:
  "tagSet noSuchObject = [(128, 0, 0)]"
  "tagSet noSuchInstance = [(128, 0, 1)]"
  "tagSet endOfMibView = [(128, 0, 2)]"
  by (simp_all add: noSuchInstance_def noSuchObject_def endOfMibView_def sentinel_def)

lemma same_type_exclusive:
  "isSameTypeWith noSuchInstance a \<Longrightarrow> \<not> isSameTypeWith noSuchObject a"
  "isSameTypeWith endOfMibView a \<Longrightarrow> \<not> isSameTypeWith noSuchObject a"
  "isSameTypeWith endOfMibView a \<Longrightarrow> \<not> isSameTypeWith noSuchInstance a"
  by (auto dest!: same_type_tagSet simp add: sentinel_tagSets)

section \<open>The properties of the specification\<close>

subsection \<open>C1: classification by class name\<close>

text \<open>
  C1. Classification is a closed membership test on the name of the value's class.
  For a value that \<open>Value.__init__\<close> keeps as it is (one that is no
  \<open>ObjectIdentifier\<close>), \<open>is_counter\<close> holds exactly for the names \<open>Counter32\<close>,
  \<open>Counter64\<close> and \<open>ZeroBasedCounter64\<close>, and \<open>is_gauge\<close> exactly for \<open>Gauge32\<close>,
  \<open>Integer\<close>, \<open>Integer32\<close>, \<open>Unsigned32\<close> and \<open>CounterBasedGauge64\<close>; a counter is
  neither a gauge nor opaque, and a gauge neither a counter nor opaque. The
  superclasses of the value play no part: a \<open>CounterBasedGauge64\<close> is a gauge and no
  counter also when \<open>Counter64\<close> is among its superclasses.
\<close>

theorem classify_by_class_name:
  assumes "\<not> asn1_isinstance a ''ObjectIdentifier''"
  shows "is_counter (Value_init (Asn1Arg a)) =
           (class_name a \<in> {''Counter32'', ''Counter64'', ''ZeroBasedCounter64''})
       \<and> is_gauge (Value_init (Asn1Arg a)) =
           (class_name a \<in> {''Gauge32'', ''Integer'', ''Integer32'', ''Unsigned32'',
                             ''CounterBasedGauge64''})
       \<and> (is_counter (Value_init (Asn1Arg a))
            \<longrightarrow> \<not> is_gauge (Value_init (Asn1Arg a)) \<and> \<not> is_opaque (Value_init (Asn1Arg a)))
       \<and> (is_gauge (Value_init (Asn1Arg a))
            \<longrightarrow> \<not> is_counter (Value_init (Asn1Arg a)) \<and> \<not> is_opaque (Value_init (Asn1Arg a)))"
  using assms
  by (auto simp add: is_counter_def is_gauge_def is_opaque_def SNMP_COUNTER_CLASSES_def
      SNMP_GAUGE_CLASSES_def)

theorem classify_by_class_name_witness:
  "\<not> asn1_isinstance counter64_based_gauge ''ObjectIdentifier''
   \<and> asn1_isinstance counter64_based_gauge ''Counter64''
   \<and> is_gauge (Value_init (Asn1Arg counter64_based_gauge))
   \<and> \<not> is_counter (Value_init (Asn1Arg counter64_based_gauge))
   \<and> is_counter (Value_init (Asn1Arg (counter64_based_gauge\<lparr>class_name := ''Counter64''\<rparr>)))
   \<and> \<not> is_gauge (Value_init (Asn1Arg (counter64_based_gauge\<lparr>class_name := ''Counter64''\<rparr>)))"
proof -
  have n: "\<not> asn1_isinstance counter64_based_gauge ''ObjectIdentifier''"
    by (simp add: asn1_isinstance_def counter64_based_gauge_def)
  have n': "\<not> asn1_isinstance (counter64_based_gauge\<lparr>class_name := ''Counter64''\<rparr>)
              ''ObjectIdentifier''"
    by (simp add: asn1_isinstance_def counter64_based_gauge_def)
  have s: "asn1_isinstance counter64_based_gauge ''Counter64''"
    by (simp add: asn1_isinstance_def counter64_based_gauge_def)
  have c: "class_name counter64_based_gauge = ''CounterBasedGauge64''"
    by (simp add: counter64_based_gauge_def)
  show ?thesis
    using classify_by_class_name [OF n] classify_by_class_name [OF n'] n s c
    by simp
qed

subsection \<open>C2: resolution as a tuple\<close>

text \<open>
  C2. The specification states that \<open>resolve_as_tuple\<close> parses \<open>raw\<close> on the first call only and that
  later calls return the cached tuple without parsing again. The method calls
  \<open>_initialize\<close> unconditionally, and \<open>_initialize\<close> calls \<open>parse_as_oid_tuple\<close>
  unconditionally: on the object left by a first call, which holds the tuple in
  \<open>_parts\<close>, a second call parses \<open>raw\<close> a second time.
\<close>

theorem resolve_as_tuple_reparses_counterexample:
  "resolve_as_tuple (OID_init (PyStr ''1.3.6.1'')) [] =
     (Inr [1, 3, 6, 1], \<lparr>raw = PyStr ''1.3.6.1'', parts = Some [1, 3, 6, 1]\<rparr>, [PyStr ''1.3.6.1''])
   \<and> resolve_as_tuple \<lparr>raw = PyStr ''1.3.6.1'', parts = Some [1, 3, 6, 1]\<rparr> [PyStr ''1.3.6.1''] =
     (Inr [1, 3, 6, 1], \<lparr>raw = PyStr ''1.3.6.1'', parts = Some [1, 3, 6, 1]\<rparr>,
      [PyStr ''1.3.6.1'', PyStr ''1.3.6.1''])"
  by (simp add: resolve_as_tuple_parse OID_init_def parse_example_str)

text \<open>
  C2, as amended. Every call of \<open>resolve_as_tuple\<close>, the first and each later one,
  parses \<open>raw\<close> once, whatever \<open>_parts\<close> holds: when the parse fails the error is
  raised and the object is left as it was, otherwise the tuple is stored in \<open>_parts\<close>
  and returned. The call leaves \<open>raw\<close> as it is, so a second call returns what the
  first returned.
\<close>

theorem resolve_as_tuple_every_call_parses:
  "resolve_as_tuple self log =
     (case parse_as_oid_tuple (raw self) of
        Inl e \<Rightarrow> (Inl e, self, log @ [raw self])
      | Inr ps \<Rightarrow> (Inr ps, self\<lparr>parts := Some ps\<rparr>, log @ [raw self]))
   \<and> raw (fst (snd (resolve_as_tuple self log))) = raw self
   \<and> fst (resolve_as_tuple (fst (snd (resolve_as_tuple self log))) log') =
       fst (resolve_as_tuple self log)"
  by (simp add: resolve_as_tuple_parse split: sum.splits)

subsection \<open>C3: equality of OIDs\<close>

text \<open>
  C3. Two OIDs, whatever their raw representations, are equal if and only if their
  resolved tuples are equal: when both resolve, \<open>__eq__\<close> returns whether the two
  tuples are equal, and it returns a verdict only when both resolve (otherwise the
  error of the resolution is raised). The OID of the string \<open>1.3.6.1\<close> equals the
  OID of the sequence 1, 3, 6, 1.
\<close>

theorem OID_eq_iff_resolved_equal:
  "(fst (resolve_as_tuple a log) = Inr ta \<and> fst (resolve_as_tuple b log') = Inr tb
      \<longrightarrow> fst (OID_eq a (AnOID b) log) = Inr (ta = tb))
   \<and> (fst (OID_eq a (AnOID b) log) = Inr r
      \<longrightarrow> (\<exists>ta tb. fst (resolve_as_tuple a log) = Inr ta \<and> fst (resolve_as_tuple b log') = Inr tb
            \<and> r = (ta = tb)))"
  by (auto simp add: OID_eq_def resolve_as_tuple_parse split: sum.splits)

theorem OID_eq_iff_resolved_equal_witness:
  "fst (resolve_as_tuple (OID_init (PyStr ''1.3.6.1'')) []) = Inr [1, 3, 6, 1]
   \<and> fst (resolve_as_tuple (OID_init (PySeq [1, 3, 6, 1])) []) = Inr [1, 3, 6, 1]
   \<and> fst (OID_eq (OID_init (PyStr ''1.3.6.1'')) (AnOID (OID_init (PySeq [1, 3, 6, 1]))) []) = Inr True
   \<and> fst (resolve_as_tuple (OID_init (PySeq [1, 3, 6, 2])) []) = Inr [1, 3, 6, 2]
   \<and> fst (OID_eq (OID_init (PyStr ''1.3.6.1'')) (AnOID (OID_init (PySeq [1, 3, 6, 2]))) []) = Inr False
   \<and> (\<exists>ta tb. fst (resolve_as_tuple (OID_init (PyStr ''1.3.6.1'')) []) = Inr ta
         \<and> fst (resolve_as_tuple (OID_init (PySeq [1, 3, 6, 2])) []) = Inr tb
         \<and> False = (ta = tb))"
proof -
  have a: "fst (resolve_as_tuple (OID_init (PyStr ''1.3.6.1'')) []) = Inr [1, 3, 6, 1]"
    by (simp add: resolve_result OID_init_def parse_example_str)
  have b: "fst (resolve_as_tuple (OID_init (PySeq [1, 3, 6, 1])) []) = Inr [1, 3, 6, 1]"
    by (simp add: resolve_result OID_init_def parse_example_seq)
  have c: "fst (resolve_as_tuple (OID_init (PySeq [1, 3, 6, 2])) []) = Inr [1, 3, 6, 2]"
    by (simp add: resolve_result OID_init_def parse_sequence_def)
  have eq: "fst (OID_eq (OID_init (PyStr ''1.3.6.1'')) (AnOID (OID_init (PySeq [1, 3, 6, 1]))) []) =
              Inr True"
    using OID_eq_iff_resolved_equal [of "OID_init (PyStr ''1.3.6.1'')" "[]" "[1, 3, 6, 1]"
        "OID_init (PySeq [1, 3, 6, 1])" "[]" "[1, 3, 6, 1]"] a b
    by simp
  have ne: "fst (OID_eq (OID_init (PyStr ''1.3.6.1'')) (AnOID (OID_init (PySeq [1, 3, 6, 2]))) []) =
              Inr False"
    using OID_eq_iff_resolved_equal [of "OID_init (PyStr ''1.3.6.1'')" "[]" "[1, 3, 6, 1]"
        "OID_init (PySeq [1, 3, 6, 2])" "[]" "[1, 3, 6, 2]"] a c
    by simp
  have ex: "\<exists>ta tb. fst (resolve_as_tuple (OID_init (PyStr ''1.3.6.1'')) []) = Inr ta
         \<and> fst (resolve_as_tuple (OID_init (PySeq [1, 3, 6, 2])) []) = Inr tb
         \<and> False = (ta = tb)"
    using OID_eq_iff_resolved_equal [of "OID_init (PyStr ''1.3.6.1'')" "[]" _
        "OID_init (PySeq [1, 3, 6, 2])" "[]" _ False] ne
    by simp
  from a b c eq ne ex show ?thesis by simp
qed

subsection \<open>C4: a value that wraps an OID is not numeric\<close>

text \<open>
  C4. For a \<open>Value\<close> whose payload is an OID, \<open>__int__\<close> and \<open>__float__\<close> raise
  \<open>ValueError\<close> and \<open>__bool__\<close> returns \<open>True\<close>, whatever the OID holds.
\<close>

theorem identifier_value_not_numeric:
  assumes "inner v = Wrapped x"
  shows "Value_int v = Inl ValueError \<and> Value_float pyasn1_decode v = Inl ValueError
         \<and> Value_bool v = True"
  using assms by (simp add: Value_int_def Value_float_def Value_bool_def)

theorem identifier_value_not_numeric_witness:
  "inner (Value_init (IdentityArg unresolved_identity)) =
     Wrapped (OID_init (PyObjectIdentity unresolved_identity))
   \<and> Value_int (Value_init (IdentityArg unresolved_identity)) = Inl ValueError
   \<and> Value_float example_decode (Value_init (IdentityArg unresolved_identity)) = Inl ValueError
   \<and> Value_bool (Value_init (IdentityArg unresolved_identity)) = True"
proof -
  have w: "inner (Value_init (IdentityArg unresolved_identity)) =
             Wrapped (OID_init (PyObjectIdentity unresolved_identity))"
    by simp
  show ?thesis
    using w identifier_value_not_numeric [OF w, of example_decode] by simp
qed

subsection \<open>C5: the float of an opaque value\<close>

text \<open>
  C5. For a \<open>Value\<close> whose payload has the class name \<open>Opaque\<close>, \<open>__float__\<close> decodes
  the bytes of the payload with the BER decoder and returns the float of the decoded
  value (an error of \<open>bytes\<close>, of the decoder or of \<open>float\<close> is raised as it is);
  for every other payload that is not an OID it returns the float of the payload
  itself, whatever the decoder is.
\<close>

theorem opaque_float_decodes_payload:
  assumes "inner v = Plain a"
  shows "(class_name a = ''Opaque'' \<longrightarrow>
            Value_float pyasn1_decode v =
              (case bytes_value a of
                 Inl e \<Rightarrow> Inl e
               | Inr bs \<Rightarrow>
                   (case pyasn1_decode bs of
                      Inl e \<Rightarrow> Inl e
                    | Inr (decoded, rest) \<Rightarrow> float_value decoded)))
       \<and> (class_name a \<noteq> ''Opaque'' \<longrightarrow> Value_float pyasn1_decode v = float_value a)"
  using assms by (simp add: Value_float_def is_opaque_def)

theorem opaque_float_decodes_payload_witness:
  "inner (Value_init (Asn1Arg opaque_value)) = Plain opaque_value
   \<and> class_name opaque_value = ''Opaque''
   \<and> Value_float example_decode (Value_init (Asn1Arg opaque_value)) =
       Inr (Float64 0x4045000000000000)
   \<and> inner (Value_init (Asn1Arg gauge32_value)) = Plain gauge32_value
   \<and> class_name gauge32_value \<noteq> ''Opaque''
   \<and> Value_float example_decode (Value_init (Asn1Arg gauge32_value)) =
       Inr (Float64 0x401C000000000000)"
proof -
  have o: "inner (Value_init (Asn1Arg opaque_value)) = Plain opaque_value"
    by (simp add: asn1_isinstance_def opaque_value_def)
  have g: "inner (Value_init (Asn1Arg gauge32_value)) = Plain gauge32_value"
    by (simp add: asn1_isinstance_def gauge32_value_def)
  have co: "class_name opaque_value = ''Opaque''"
    by (simp add: opaque_value_def)
  have cg: "class_name gauge32_value \<noteq> ''Opaque''"
    by (simp add: gauge32_value_def)
  have d: "(case bytes_value opaque_value of
              Inl e \<Rightarrow> Inl e
            | Inr bs \<Rightarrow>
                (case example_decode bs of
                   Inl e \<Rightarrow> Inl e
                 | Inr (decoded, rest) \<Rightarrow> float_value decoded)) =
           Inr (Float64 0x4045000000000000)"
    by (simp add: opaque_value_def example_decode_def float_value_42_def)
  have f: "float_value gauge32_value = Inr (Float64 0x401C000000000000)"
    by (simp add: gauge32_value_def)
  show ?thesis
    using opaque_float_decodes_payload [OF o, of example_decode]
      opaque_float_decodes_payload [OF g, of example_decode] o g co cg d f
    by simp
qed

subsection \<open>C6: sentinels\<close>

text \<open>
  C6. For a \<open>Value\<close> whose payload has the type of \<open>noSuchInstance\<close> or of
  \<open>noSuchObject\<close>, \<open>__bool__\<close> returns \<open>False\<close>; \<open>__str__\<close> returns the literals
  \<open>NoSuchInstance\<close>, \<open>NoSuchObject\<close> and \<open>EndOfMibView\<close> for the three sentinel
  types; and \<open>__bool__\<close> returns \<open>True\<close> for every payload that is not an OID and
  has neither of the first two types, the type of \<open>endOfMibView\<close> among them.
\<close>

theorem sentinel_bool_and_str:
  assumes "inner v = Plain a"
  shows "(isSameTypeWith noSuchInstance a \<longrightarrow>
            Value_bool v = False \<and> fst (Value_str v log) = Inr ''NoSuchInstance'')
       \<and> (isSameTypeWith noSuchObject a \<longrightarrow>
            Value_bool v = False \<and> fst (Value_str v log) = Inr ''NoSuchObject'')
       \<and> (isSameTypeWith endOfMibView a \<longrightarrow>
            Value_bool v = True \<and> fst (Value_str v log) = Inr ''EndOfMibView'')
       \<and> (\<not> isSameTypeWith noSuchInstance a \<and> \<not> isSameTypeWith noSuchObject a \<longrightarrow>
            Value_bool v = True)"
  using assms same_type_exclusive [of a]
  by (auto simp add: Value_bool_def Value_str_def)

theorem sentinel_bool_and_str_witness:
  "Value_bool (Value_init (Asn1Arg noSuchInstance)) = False
   \<and> fst (Value_str (Value_init (Asn1Arg noSuchInstance)) []) = Inr ''NoSuchInstance''
   \<and> Value_bool (Value_init (Asn1Arg noSuchObject)) = False
   \<and> fst (Value_str (Value_init (Asn1Arg noSuchObject)) []) = Inr ''NoSuchObject''
   \<and> Value_bool (Value_init (Asn1Arg endOfMibView)) = True
   \<and> fst (Value_str (Value_init (Asn1Arg endOfMibView)) []) = Inr ''EndOfMibView''
   \<and> Value_bool (Value_init (Asn1Arg gauge32_value)) = True"
proof -
  have i: "inner (Value_init (Asn1Arg noSuchInstance)) = Plain noSuchInstance"
    by (simp add: asn1_isinstance_def noSuchInstance_def sentinel_def)
  have ob: "inner (Value_init (Asn1Arg noSuchObject)) = Plain noSuchObject"
    by (simp add: asn1_isinstance_def noSuchObject_def sentinel_def)
  have e: "inner (Value_init (Asn1Arg endOfMibView)) = Plain endOfMibView"
    by (simp add: asn1_isinstance_def endOfMibView_def sentinel_def)
  have g: "inner (Value_init (Asn1Arg gauge32_value)) = Plain gauge32_value"
    by (simp add: asn1_isinstance_def gauge32_value_def)
  have r: "isSameTypeWith noSuchInstance noSuchInstance" "isSameTypeWith noSuchObject noSuchObject"
    "isSameTypeWith endOfMibView endOfMibView"
    by (simp_all add: isSameTypeWith_def)
  have ng: "\<not> isSameTypeWith noSuchInstance gauge32_value"
    "\<not> isSameTypeWith noSuchObject gauge32_value"
    by (simp_all add: isSameTypeWith_def gauge32_value_def noSuchInstance_def noSuchObject_def
        sentinel_def)
  show ?thesis
    using sentinel_bool_and_str [OF i, of "[]"] sentinel_bool_and_str [OF ob, of "[]"]
      sentinel_bool_and_str [OF e, of "[]"] sentinel_bool_and_str [OF g, of "[]"] r ng
    by simp
qed

subsection \<open>C7: the MIB symbol\<close>

text \<open>
  C7. \<open>get_mib_symbol\<close> returns a symbol only when \<open>raw\<close> is an \<open>ObjectIdentity\<close>,
  and then the symbol and the indexes that the identity gives. For an OID built
  from a sequence, a string, a pyasn1 value or an \<open>ObjectType\<close> (also one around a
  resolved identity) it raises \<open>NotImplementedError\<close> and asks no identity for its
  symbol.
\<close>

theorem get_mib_symbol_only_for_identity:
  "get_mib_symbol (OID_init (PySeq xs)) = Inl NotImplementedError
   \<and> get_mib_symbol (OID_init (PyStr s)) = Inl NotImplementedError
   \<and> get_mib_symbol (OID_init (PyAsn1 a)) = Inl NotImplementedError
   \<and> get_mib_symbol (OID_init (PyObjectType t)) = Inl NotImplementedError
   \<and> ((\<forall>i. raw self \<noteq> PyObjectIdentity i) \<longrightarrow> get_mib_symbol self = Inl NotImplementedError)
   \<and> (get_mib_symbol self = Inr r \<longrightarrow>
        (\<exists>i m. raw self = PyObjectIdentity i
           \<and> getMibSymbol i = Inr (m, fst r, map MibIndex (snd r))))"
proof -
  have "get_mib_symbol self = Inr r \<Longrightarrow>
      \<exists>i m. raw self = PyObjectIdentity i \<and> getMibSymbol i = Inr (m, fst r, map MibIndex (snd r))"
    by (cases "raw self")
      (auto simp add: get_mib_symbol_def comp_def split: sum.splits prod.splits)
  moreover have "(\<forall>i. raw self \<noteq> PyObjectIdentity i) \<Longrightarrow>
      get_mib_symbol self = Inl NotImplementedError"
    by (cases "raw self") (simp_all add: get_mib_symbol_def)
  ultimately show ?thesis
    by (simp add: get_mib_symbol_def OID_init_def)
qed

theorem get_mib_symbol_only_for_identity_witness:
  "get_mib_symbol (OID_init (PyObjectIdentity resolved_identity)) = Inr (''sysObjectID'', [''0''])
   \<and> get_mib_symbol (OID_init (PyObjectType (ObjectType resolved_identity))) =
       Inl NotImplementedError
   \<and> (\<exists>i m. raw (OID_init (PyObjectIdentity resolved_identity)) = PyObjectIdentity i
        \<and> getMibSymbol i = Inr (m, ''sysObjectID'', [MibIndex ''0'']))"
proof -
  have s: "get_mib_symbol (OID_init (PyObjectIdentity resolved_identity)) =
             Inr (''sysObjectID'', [''0''])"
    by (simp add: get_mib_symbol_def OID_init_def getMibSymbol_def resolved_identity_def)
  have n: "\<forall>i. raw (OID_init (PyObjectType (ObjectType resolved_identity))) \<noteq> PyObjectIdentity i"
    by (simp add: OID_init_def)
  show ?thesis
    using get_mib_symbol_only_for_identity
        [of _ _ _ _ "OID_init (PyObjectIdentity resolved_identity)" "(''sysObjectID'', [''0''])"]
      get_mib_symbol_only_for_identity
        [of _ _ _ _ "OID_init (PyObjectType (ObjectType resolved_identity))"] s n
    by simp
qed

subsection \<open>C8: the object type of an OID\<close>

text \<open>
  C8. When \<open>raw\<close> is an \<open>ObjectType\<close>, \<open>maybe_resolve_as_object_type\<close> returns that
  object and resolves nothing: the OID is left as it was and nothing is parsed. When
  \<open>raw\<close> is an \<open>ObjectIdentity\<close> it returns a new \<open>ObjectType\<close> around that
  identity, again without resolving. In every other case it resolves the OID and
  returns a new \<open>ObjectType\<close> around a new \<open>ObjectIdentity\<close> of the resolved tuple,
  or raises the error of the resolution.
\<close>

theorem maybe_resolve_as_object_type_cases:
  "(raw self = PyObjectType t \<longrightarrow> maybe_resolve_as_object_type self log = (Inr t, self, log))
   \<and> (raw self = PyObjectIdentity i \<longrightarrow>
        maybe_resolve_as_object_type self log = (Inr (ObjectType i), self, log))
   \<and> ((\<forall>t. raw self \<noteq> PyObjectType t) \<and> (\<forall>i. raw self \<noteq> PyObjectIdentity i) \<longrightarrow>
        fst (maybe_resolve_as_object_type self log) =
          (case fst (resolve_as_tuple self log) of
             Inl e \<Rightarrow> Inl e
           | Inr ps \<Rightarrow> Inr (ObjectType (ObjectIdentity (OidArgs ps) None))))"
  by (cases "raw self")
    (simp_all add: maybe_resolve_as_object_type_def resolve_as_tuple_parse split: sum.splits)

theorem maybe_resolve_as_object_type_cases_witness:
  "maybe_resolve_as_object_type (OID_init (PyObjectType (ObjectType unresolved_identity))) [] =
     (Inr (ObjectType unresolved_identity),
      OID_init (PyObjectType (ObjectType unresolved_identity)), [])
   \<and> maybe_resolve_as_object_type (OID_init (PyObjectIdentity unresolved_identity)) [] =
     (Inr (ObjectType unresolved_identity), OID_init (PyObjectIdentity unresolved_identity), [])
   \<and> fst (maybe_resolve_as_object_type (OID_init (PyStr ''1.3.6.1'')) []) =
       Inr (ObjectType (ObjectIdentity (OidArgs [1, 3, 6, 1]) None))"
proof -
  have t: "raw (OID_init (PyObjectType (ObjectType unresolved_identity))) =
             PyObjectType (ObjectType unresolved_identity)"
    by (simp add: OID_init_def)
  have i: "raw (OID_init (PyObjectIdentity unresolved_identity)) =
             PyObjectIdentity unresolved_identity"
    by (simp add: OID_init_def)
  have s: "(\<forall>t. raw (OID_init (PyStr ''1.3.6.1'')) \<noteq> PyObjectType t)
           \<and> (\<forall>i. raw (OID_init (PyStr ''1.3.6.1'')) \<noteq> PyObjectIdentity i)"
    by (simp add: OID_init_def)
  have r: "fst (resolve_as_tuple (OID_init (PyStr ''1.3.6.1'')) []) = Inr [1, 3, 6, 1]"
    by (simp add: resolve_result OID_init_def parse_example_str)
  show ?thesis
    using maybe_resolve_as_object_type_cases
        [of "OID_init (PyObjectType (ObjectType unresolved_identity))"
          "ObjectType unresolved_identity" "[]"]
      maybe_resolve_as_object_type_cases
        [of "OID_init (PyObjectIdentity unresolved_identity)" _ "[]" unresolved_identity]
      maybe_resolve_as_object_type_cases [of "OID_init (PyStr ''1.3.6.1'')" _ "[]"]
      t i s r
    by simp
qed

subsection \<open>C9: from a dotted string and back\<close>

text \<open>
  C9. The specification states that the string of the OID of a valid dotted string is that dotted
  string. A numeral with a leading zero is a numeric token, so \<open>01.3\<close> is parsed, to
  the tuple 1, 3; the string of that tuple is \<open>1.3\<close>, not \<open>01.3\<close>.
\<close>

theorem OID_str_roundtrip_counterexample:
  "parse_as_oid_tuple (PyStr ''01.3'') = Inr [1, 3]
   \<and> fst (OID_str (OID_init (PyStr ''01.3'')) []) = Inr ''1.3''
   \<and> fst (OID_str (OID_init (PyStr ''01.3'')) []) \<noteq> Inr ''01.3''"
  by (simp add: OID_str_def resolve_as_tuple_parse OID_init_def parse_dotted_def
      numeric_token_def is_digit_def parse_digits_def digit_val_def format_as_oid_string_def
      str_int_def str_nat.simps digit_char_def)

text \<open>
  C9, as amended. For every dotted string whose tokens are decimal numerals without
  a superfluous leading zero, the string of the OID built from it is that dotted
  string.
\<close>

theorem OID_str_roundtrip_canonical:
  assumes "canonical_dotted d"
  shows "fst (OID_str (OID_init (PyStr d)) log) = Inr d"
  using format_parse_canonical [OF assms]
  by (simp add: OID_str_def resolve_as_tuple_parse OID_init_def)

theorem OID_str_roundtrip_canonical_witness:
  "canonical_dotted ''1.3.6.1.2.1.1.3.0''
   \<and> fst (OID_str (OID_init (PyStr ''1.3.6.1.2.1.1.3.0'')) []) = Inr ''1.3.6.1.2.1.1.3.0''"
proof -
  have c: "canonical_dotted ''1.3.6.1.2.1.1.3.0''"
    by (simp add: canonical_dotted_def canonical_token_def is_digit_def)
  show ?thesis
    using c OID_str_roundtrip_canonical [OF c, of "[]"] by simp
qed

subsection \<open>C10: a value built from an identifier\<close>

text \<open>
  C10. \<open>Value.__init__\<close> wraps a payload that is an \<open>ObjectIdentifier\<close> or an
  \<open>ObjectIdentity\<close> in an \<open>OID\<close>, and for such a \<open>Value\<close> \<open>is_counter\<close>, \<open>is_gauge\<close>
  and \<open>is_opaque\<close> are all false.
\<close>

theorem identifier_payload_wrapped:
  "(asn1_isinstance a ''ObjectIdentifier'' \<longrightarrow>
      inner (Value_init (Asn1Arg a)) = Wrapped (OID_init (PyAsn1 a))
      \<and> \<not> is_counter (Value_init (Asn1Arg a))
      \<and> \<not> is_gauge (Value_init (Asn1Arg a))
      \<and> \<not> is_opaque (Value_init (Asn1Arg a)))
   \<and> inner (Value_init (IdentityArg i)) = Wrapped (OID_init (PyObjectIdentity i))
   \<and> \<not> is_counter (Value_init (IdentityArg i))
   \<and> \<not> is_gauge (Value_init (IdentityArg i))
   \<and> \<not> is_opaque (Value_init (IdentityArg i))"
  by (simp add: is_counter_def is_gauge_def is_opaque_def SNMP_COUNTER_CLASSES_def
      SNMP_GAUGE_CLASSES_def)

theorem identifier_payload_wrapped_witness:
  "asn1_isinstance object_name_value ''ObjectIdentifier''
   \<and> inner (Value_init (Asn1Arg object_name_value)) = Wrapped (OID_init (PyAsn1 object_name_value))
   \<and> \<not> is_counter (Value_init (Asn1Arg object_name_value))
   \<and> \<not> is_gauge (Value_init (Asn1Arg object_name_value))
   \<and> \<not> is_opaque (Value_init (Asn1Arg object_name_value))"
proof -
  have s: "asn1_isinstance object_name_value ''ObjectIdentifier''"
    by (simp add: asn1_isinstance_def object_name_value_def)
  show ?thesis
    using identifier_payload_wrapped [of object_name_value] s by simp
qed

end
